theory Spec2Isabelle
  imports Main
begin

section \<open>Strings and regular expressions of the identify-rock function\<close>

text \<open>
  The edge function \<^verbatim>\<open>supabase/functions/identify-rock/index.ts\<close> turns a free-text
  description into characteristics (\<^verbatim>\<open>parseCharacteristics\<close>), classifies them
  (\<^verbatim>\<open>classifyRock\<close>) and attaches reference data (\<^verbatim>\<open>enhanceRockData\<close>).

  A JavaScript string is modelled as a \<^typ>\<open>string\<close>: one \<^typ>\<open>char\<close> per UTF-16 code unit,
  for the code units below 256 (ASCII and Latin-1). On this range the three string
  operations the code uses are written out exactly: \<^verbatim>\<open>toLowerCase\<close>, the white space
  class \<^verbatim>\<open>\s\<close>, and the line terminators that \<^verbatim>\<open>.\<close> does not match.
\<close>

definition toLowerCase_unit :: "char \<Rightarrow> char" where
  \<comment> \<open>A-Z and the Latin-1 capitals U+00C0..U+00DE (without the sign U+00D7) move up by 32.\<close>
  "toLowerCase_unit c =
     (let n = (of_char c :: nat)
      in if (65 \<le> n \<and> n \<le> 90) \<or> (192 \<le> n \<and> n \<le> 222 \<and> n \<noteq> 215)
         then char_of (n + 32) else c)"

definition toLowerCase :: "string \<Rightarrow> string" where
  "toLowerCase s = map toLowerCase_unit s"

definition is_white_space :: "char \<Rightarrow> bool" where
  \<comment> \<open>\<^verbatim>\<open>\s\<close>: TAB, LF, VT, FF, CR, space and the no-break space.\<close>
  "is_white_space c =
     (c \<in> set [CHR 0x09, CHR 0x0A, CHR 0x0B, CHR 0x0C, CHR 0x0D, CHR 0x20, CHR 0xA0])"

definition is_line_terminator :: "char \<Rightarrow> bool" where
  "is_line_terminator c = (c = CHR 0x0A \<or> c = CHR 0x0D)"

text \<open>
  The regular expressions of the source are alternatives of literal words, some with
  \<^verbatim>\<open>.*\<close> between two parts, as in \<^verbatim>\<open>/hard|difficult.*(scratch|break)|tough|solid/\<close>.
  \<open>match_at r s\<close> lists what is left of \<open>s\<close> after each way \<open>r\<close> can match a prefix of
  \<open>s\<close>; \<open>rx_test r s\<close> is the truth value of \<^verbatim>\<open>s.match(r)\<close>: \<open>r\<close> matches at some
  position of \<open>s\<close>.
\<close>

datatype regex = Lit string | Alts "regex list" | Seq regex regex | DotStar

fun starts_with :: "string \<Rightarrow> string \<Rightarrow> string option" where
  "starts_with [] s = Some s"
| "starts_with (p # ps) [] = None"
| "starts_with (p # ps) (c # cs) = (if p = c then starts_with ps cs else None)"

fun dot_star :: "string \<Rightarrow> string list" where
  "dot_star [] = [[]]"
| "dot_star (c # cs) = (if is_line_terminator c then [c # cs] else dot_star cs @ [c # cs])"

fun match_at :: "regex \<Rightarrow> string \<Rightarrow> string list" where
  "match_at (Lit p) s = (case starts_with p s of Some r \<Rightarrow> [r] | None \<Rightarrow> [])"
| "match_at (Alts rs) s = concat (map (\<lambda>r. match_at r s) rs)"
| "match_at (Seq a b) s = concat (map (match_at b) (match_at a s))"
| "match_at DotStar s = dot_star s"

fun rx_test :: "regex \<Rightarrow> string \<Rightarrow> bool" where
  "rx_test r [] = (match_at r [] \<noteq> [])"
| "rx_test r (c # cs) = (match_at r (c # cs) \<noteq> [] \<or> rx_test r cs)"

text \<open>
  \<^verbatim>\<open>desc.split(/\s+/)\<close>: the pieces between the maximal runs of white space. White space
  at the start or at the end of the text leaves an empty piece there, and a text without
  white space (the empty text too) is one piece.
\<close>

function split_ws :: "string \<Rightarrow> string list" where
  "split_ws s =
     (let piece = takeWhile (\<lambda>c. \<not> is_white_space c) s;
          rest = dropWhile (\<lambda>c. \<not> is_white_space c) s
      in if rest = [] then [piece] else piece # split_ws (dropWhile is_white_space rest))"
  by pat_completeness auto
termination
proof (relation "measure length")
  fix s piece rest
  assume r: "rest = dropWhile (\<lambda>c. \<not> is_white_space c) s" and ne: "rest \<noteq> []"
  from ne obtain c cs where cs: "rest = c # cs" by (cases rest) auto
  have "\<not> \<not> is_white_space (hd rest)"
    using hd_dropWhile [of "\<lambda>c. \<not> is_white_space c" s] r ne by blast
  then have "is_white_space c"
    using cs by simp
  then have "length (dropWhile is_white_space rest) \<le> length cs"
    using cs by (simp add: length_dropWhile_le)
  moreover have "length rest \<le> length s"
    using r by (simp add: length_dropWhile_le)
  ultimately show "(dropWhile is_white_space rest, s) \<in> measure length"
    using cs by simp
qed simp

declare split_ws.simps [simp del]

text \<open>\<^verbatim>\<open>keywords.join(' ')\<close>.\<close>

fun join :: "string \<Rightarrow> string list \<Rightarrow> string" where
  "join sep [] = []"
| "join sep [x] = x"
| "join sep (x # y # ys) = x @ sep @ join sep (y # ys)"

section \<open>Characteristics\<close>

text \<open>
  The field \<^verbatim>\<open>keywords\<close> of the source is \<open>keywords_list\<close> here, and the fields of the
  image analysis that would clash with those of the characteristics carry a prefix.
\<close>

record Characteristics =
  texture :: string
  color :: string
  hardness :: string
  luster :: string
  crystalSize :: string
  keywords_list :: "string list"
  dominantColors :: "string list option"

record ImageAnalysis =
  colors :: "string list"
  image_texture :: string
  patterns :: "string list"

text \<open>
  The body of \<^verbatim>\<open>parseCharacteristics\<close> is a sequence of statements on the object
  \<^verbatim>\<open>characteristics\<close>, most of them \<^verbatim>\<open>if (desc.match(...)) characteristics.f = '...'\<close>.
  \<open>statements\<close> runs a list of state transformers in order, and \<open>if_then b f\<close> is the
  statement \<^verbatim>\<open>if (b) f\<close>.
\<close>

definition statements :: "('s \<Rightarrow> 's) list \<Rightarrow> 's \<Rightarrow> 's" where
  "statements stmts s = fold (\<lambda>stmt. stmt) stmts s"

definition if_then :: "bool \<Rightarrow> ('s \<Rightarrow> 's) \<Rightarrow> 's \<Rightarrow> 's" where
  "if_then b f s = (if b then f s else s)"

definition parse_description :: "string \<Rightarrow> Characteristics \<Rightarrow> Characteristics" where
  "parse_description description =
     (let desc = toLowerCase description in
      statements [
        (\<lambda>c. c\<lparr>keywords_list := split_ws desc\<rparr>),
        if_then (rx_test (Alts [Lit ''coarse'', Lit ''rough'', Lit ''bumpy'', Lit ''granular'', Lit ''grainy'']) desc)
          (\<lambda>c. c\<lparr>texture := ''coarse''\<rparr>),
        if_then (rx_test (Alts [Lit ''fine'', Lit ''smooth'', Lit ''silky'', Lit ''powdery'']) desc)
          (\<lambda>c. c\<lparr>texture := ''fine''\<rparr>),
        if_then (rx_test (Alts [Lit ''glassy'', Lit ''glass'', Lit ''shiny'', Lit ''reflective'']) desc)
          (\<lambda>c. c\<lparr>texture := ''glassy''\<rparr>),
        if_then (rx_test (Alts [Lit ''porous'', Lit ''holes'', Lit ''bubbles'', Lit ''foam'', Lit ''vesicular'', Lit ''pumice'']) desc)
          (\<lambda>c. c\<lparr>texture := ''vesicular''\<rparr>),
        if_then (rx_test (Alts [Lit ''layered'', Lit ''layers'', Lit ''banded'', Lit ''striped'', Lit ''sediment'']) desc)
          (\<lambda>c. c\<lparr>texture := ''layered''\<rparr>),
        if_then (rx_test (Alts [Lit ''foliated'', Lit ''flaky'', Lit ''scaly'', Lit ''sheet'']) desc)
          (\<lambda>c. c\<lparr>texture := ''foliated''\<rparr>),
        if_then (rx_test (Alts [Lit ''crystalline'', Lit ''crystal'', Lit ''sparkl'']) desc)
          (\<lambda>c. c\<lparr>texture := ''crystalline''\<rparr>),
        if_then (rx_test (Alts [Lit ''dark'', Lit ''black'', Lit ''charcoal'', Lit ''deep'']) desc)
          (\<lambda>c. c\<lparr>color := ''dark''\<rparr>),
        if_then (rx_test (Alts [Lit ''light'', Lit ''white'', Lit ''pale'', Lit ''cream'', Lit ''beige'']) desc)
          (\<lambda>c. c\<lparr>color := ''light''\<rparr>),
        if_then (rx_test (Alts [Lit ''red'', Lit ''pink'', Lit ''reddish'', Lit ''rust'', Lit ''brick'']) desc)
          (\<lambda>c. c\<lparr>color := ''red''\<rparr>),
        if_then (rx_test (Alts [Lit ''green'', Lit ''olive'', Lit ''emerald'']) desc)
          (\<lambda>c. c\<lparr>color := ''green''\<rparr>),
        if_then (rx_test (Alts [Lit ''gray'', Lit ''grey'', Lit ''silver'']) desc)
          (\<lambda>c. c\<lparr>color := ''gray''\<rparr>),
        if_then (rx_test (Alts [Lit ''brown'', Lit ''tan'', Lit ''beige'', Lit ''chocolate'']) desc)
          (\<lambda>c. c\<lparr>color := ''brown''\<rparr>),
        if_then (rx_test (Alts [Lit ''yellow'', Lit ''golden'', Lit ''amber'']) desc)
          (\<lambda>c. c\<lparr>color := ''yellow''\<rparr>),
        if_then (rx_test (Alts [Lit ''blue'', Lit ''azure'']) desc)
          (\<lambda>c. c\<lparr>color := ''blue''\<rparr>),
        if_then (rx_test (Alts [Lit ''hard'',
                   Seq (Lit ''difficult'') (Seq DotStar (Alts [Lit ''scratch'', Lit ''break''])),
                   Lit ''tough'', Lit ''solid'']) desc)
          (\<lambda>c. c\<lparr>hardness := ''hard''\<rparr>),
        if_then (rx_test (Alts [Lit ''soft'',
                   Seq (Lit ''easy'') (Seq DotStar (Alts [Lit ''scratch'', Lit ''break''])),
                   Lit ''crumbl'', Lit ''chalk'']) desc)
          (\<lambda>c. c\<lparr>hardness := ''soft''\<rparr>),
        if_then (rx_test (Alts [Lit ''medium'', Lit ''moderate'']) desc)
          (\<lambda>c. c\<lparr>hardness := ''medium''\<rparr>),
        if_then (rx_test (Alts [Lit ''shiny'', Lit ''metallic'', Lit ''mirror'', Lit ''reflective'']) desc)
          (\<lambda>c. c\<lparr>luster := ''metallic''\<rparr>),
        if_then (rx_test (Alts [Lit ''dull'', Lit ''earthy'', Lit ''matte'', Lit ''chalky'']) desc)
          (\<lambda>c. c\<lparr>luster := ''dull''\<rparr>),
        if_then (rx_test (Alts [Lit ''glassy'', Lit ''vitreous'', Lit ''glass'']) desc)
          (\<lambda>c. c\<lparr>luster := ''vitreous''\<rparr>),
        if_then (rx_test (Alts [Lit ''pearly'', Lit ''silk'']) desc)
          (\<lambda>c. c\<lparr>luster := ''pearly''\<rparr>),
        if_then (rx_test (Alts [
                   Seq (Lit ''large'') (Seq DotStar (Alts [Lit ''crystal'', Lit ''grain''])),
                   Lit ''coarse'']) desc)
          (\<lambda>c. c\<lparr>crystalSize := ''large''\<rparr>),
        if_then (rx_test (Alts [
                   Seq (Lit ''small'') (Seq DotStar (Alts [Lit ''crystal'', Lit ''grain''])),
                   Lit ''fine'']) desc)
          (\<lambda>c. c\<lparr>crystalSize := ''small''\<rparr>),
        if_then (rx_test (Alts [
                   Seq (Lit ''no'') (Seq DotStar (Lit ''crystal'')),
                   Lit ''glass'']) desc)
          (\<lambda>c. c\<lparr>crystalSize := ''none''\<rparr>)
      ])"

text \<open>
  \<^verbatim>\<open>description\<close> and \<^verbatim>\<open>imageAnalysis\<close> are optional; \<open>None\<close> is \<^verbatim>\<open>undefined\<close>.
  \<^verbatim>\<open>if (description)\<close> is false for \<^verbatim>\<open>undefined\<close> and for the empty string.
\<close>

definition parseCharacteristics ::
  "string option \<Rightarrow> ImageAnalysis option \<Rightarrow> Characteristics" where
  "parseCharacteristics description imageAnalysis =
     statements [
       (case description of
          None \<Rightarrow> (\<lambda>c. c)
        | Some d \<Rightarrow> if_then (d \<noteq> []) (parse_description d)),
       (case imageAnalysis of
          None \<Rightarrow> (\<lambda>c. c)
        | Some a \<Rightarrow> (\<lambda>c. c\<lparr>dominantColors := Some (colors a)\<rparr>))
     ]
     \<lparr>texture = ''unknown'', color = ''unknown'', hardness = ''unknown'',
      luster = ''unknown'', crystalSize = ''unknown'', keywords_list = [],
      dominantColors = None\<rparr>"

section \<open>The classifier\<close>

record RockData =
  name :: string
  type :: string
  confidence :: int
  formation :: string
  subtype :: string
  textureType :: string

definition createRockData ::
  "string \<Rightarrow> string \<Rightarrow> int \<Rightarrow> string \<Rightarrow> string \<Rightarrow> string \<Rightarrow> RockData" where
  "createRockData name' type' confidence' formation' subtype' textureType' =
     \<lparr>name = name', type = type', confidence = confidence', formation = formation',
      subtype = subtype', textureType = textureType'\<rparr>"

text \<open>
  \<^verbatim>\<open>classifyRock\<close> is one list of \<^verbatim>\<open>if (...) return ...\<close> statements, in four groups
  that the source marks with comments. Each group is a function here that gives \<open>Some\<close>
  result when one of its statements returns and \<open>None\<close> when control reaches the next
  group; there is no other change to the order or to the conditions.

  First group, \<^verbatim>\<open>// Direct rock name mentions\<close>, on the keywords joined by a space.
\<close>

definition tier1 :: "string \<Rightarrow> RockData option" where
  "tier1 keywordString =
     (if rx_test (Lit ''granite'') keywordString then
        Some (createRockData ''Granite'' ''igneous'' 88 ''Formed from slow cooling of felsic magma deep within the Earth's crust'' ''plutonic'' ''phaneritic'')
      else if rx_test (Lit ''basalt'') keywordString then
        Some (createRockData ''Basalt'' ''igneous'' 85 ''Formed from rapid cooling of mafic lava flows on the Earth's surface'' ''volcanic'' ''aphanitic'')
      else if rx_test (Alts [Lit ''limestone'', Lit ''lime'']) keywordString then
        Some (createRockData ''Limestone'' ''sedimentary'' 82 ''Formed from accumulation of marine organisms and chemical precipitation in warm, shallow seas'' ''chemical'' ''crystalline'')
      else if rx_test (Alts [Lit ''sandstone'', Lit ''sand'']) keywordString then
        Some (createRockData ''Sandstone'' ''sedimentary'' 80 ''Formed from cementation of sand-sized mineral particles, primarily quartz'' ''clastic'' ''medium-grained'')
      else if rx_test (Lit ''marble'') keywordString then
        Some (createRockData ''Marble'' ''metamorphic'' 85 ''Formed from metamorphism of limestone or dolomite under heat and pressure'' ''non-foliated'' ''crystalline'')
      else if rx_test (Lit ''slate'') keywordString then
        Some (createRockData ''Slate'' ''metamorphic'' 83 ''Formed from low-grade metamorphism of shale or mudstone'' ''foliated'' ''fine-grained'')
      else if rx_test (Alts [Lit ''quartzite'', Lit ''quartz'']) keywordString then
        Some (createRockData ''Quartzite'' ''metamorphic'' 81 ''Formed from metamorphism of sandstone under high pressure and temperature'' ''non-foliated'' ''granoblastic'')
      else if rx_test (Lit ''obsidian'') keywordString then
        Some (createRockData ''Obsidian'' ''igneous'' 90 ''Formed from rapid cooling of volcanic glass, preventing crystal formation'' ''volcanic'' ''glassy'')
      else if rx_test (Lit ''pumice'') keywordString then
        Some (createRockData ''Pumice'' ''igneous'' 87 ''Formed from gas-filled volcanic eruptions that create a frothy, lightweight rock'' ''volcanic'' ''vesicular'')
      else None)"

text \<open>
  Second group, \<^verbatim>\<open>// Characteristic-based classification\<close>. The statement on coarse
  texture or large crystals returns only for a light, gray or dark colour; for any other
  colour control goes on to the statements after it, which are \<open>tier2_rest\<close>.
\<close>

definition tier2_rest :: "Characteristics \<Rightarrow> string \<Rightarrow> RockData option" where
  "tier2_rest characteristics keywordString =
     (if texture characteristics = ''fine''
         \<and> (color characteristics = ''dark'' \<or> color characteristics = ''black'') then
        Some (createRockData ''Basalt'' ''igneous'' 78 ''Formed from rapid cooling of mafic lava flows on the Earth's surface'' ''volcanic'' ''aphanitic'')
      else if texture characteristics = ''layered''
              \<or> rx_test (Alts [Lit ''layer'', Lit ''bed'', Lit ''strat'']) keywordString then
        (if hardness characteristics = ''soft''
            \<or> rx_test (Alts [Lit ''clay'', Lit ''mud'']) keywordString then
           Some (createRockData ''Shale'' ''sedimentary'' 75 ''Formed from compaction of clay and silt particles in quiet water environments'' ''clastic'' ''fine-grained'')
         else
           Some (createRockData ''Sandstone'' ''sedimentary'' 72 ''Formed from cementation of sand-sized mineral particles, primarily quartz'' ''clastic'' ''medium-grained''))
      else if hardness characteristics = ''soft''
              \<and> (color characteristics = ''light'' \<or> color characteristics = ''white'') then
        Some (createRockData ''Limestone'' ''sedimentary'' 75 ''Formed from accumulation of marine organisms and chemical precipitation in warm, shallow seas'' ''chemical'' ''crystalline'')
      else if rx_test (Alts [Lit ''sand'', Lit ''grain'']) keywordString
              \<or> texture characteristics = ''coarse'' then
        Some (createRockData ''Sandstone'' ''sedimentary'' 72 ''Formed from cementation of sand-sized mineral particles, primarily quartz'' ''clastic'' ''medium-grained'')
      else if texture characteristics = ''foliated''
              \<or> rx_test (Alts [Lit ''flaky'', Lit ''sheet'', Lit ''split'']) keywordString then
        (if hardness characteristics = ''soft'' then
           Some (createRockData ''Slate'' ''metamorphic'' 70 ''Formed from low-grade metamorphism of shale or mudstone'' ''foliated'' ''fine-grained'')
         else
           Some (createRockData ''Schist'' ''metamorphic'' 68 ''Formed from medium-grade metamorphism of shale or other fine-grained rocks'' ''foliated'' ''schistose''))
      else if texture characteristics = ''crystalline'' \<or> luster characteristics = ''vitreous'' then
        (if color characteristics = ''light'' \<or> color characteristics = ''white'' then
           Some (createRockData ''Marble'' ''metamorphic'' 76 ''Formed from metamorphism of limestone or dolomite under heat and pressure'' ''non-foliated'' ''crystalline'')
         else
           Some (createRockData ''Quartzite'' ''metamorphic'' 74 ''Formed from metamorphism of sandstone under high pressure and temperature'' ''non-foliated'' ''granoblastic''))
      else None)"

definition tier2 :: "Characteristics \<Rightarrow> string \<Rightarrow> RockData option" where
  "tier2 characteristics keywordString =
     (if texture characteristics = ''glassy'' then
        Some (createRockData ''Obsidian'' ''igneous'' 85 ''Formed from rapid cooling of volcanic glass, preventing crystal formation'' ''volcanic'' ''glassy'')
      else if texture characteristics = ''vesicular'' \<or> texture characteristics = ''porous'' then
        (if color characteristics = ''light'' then
           Some (createRockData ''Pumice'' ''igneous'' 80 ''Formed from gas-filled volcanic eruptions that create a frothy, lightweight rock'' ''volcanic'' ''vesicular'')
         else
           Some (createRockData ''Scoria'' ''igneous'' 75 ''Formed from basaltic or andesitic magma during Strombolian eruptions'' ''volcanic'' ''vesicular''))
      else if texture characteristics = ''coarse'' \<or> crystalSize characteristics = ''large'' then
        (if color characteristics = ''light'' \<or> color characteristics = ''gray'' then
           Some (createRockData ''Granite'' ''igneous'' 82 ''Formed from slow cooling of felsic magma deep within the Earth's crust'' ''plutonic'' ''phaneritic'')
         else if color characteristics = ''dark'' then
           Some (createRockData ''Gabbro'' ''igneous'' 78 ''Formed from slow cooling of mafic magma deep within the Earth's crust'' ''plutonic'' ''phaneritic'')
         else tier2_rest characteristics keywordString)
      else tier2_rest characteristics keywordString)"

text \<open>Third group, \<^verbatim>\<open>// Default fallbacks based on broad characteristics\<close>.\<close>

definition tier3 :: "Characteristics \<Rightarrow> RockData option" where
  "tier3 characteristics =
     (if color characteristics = ''dark'' \<or> color characteristics = ''black'' then
        Some (createRockData ''Basalt'' ''igneous'' 65 ''Formed from rapid cooling of mafic lava flows on the Earth's surface'' ''volcanic'' ''aphanitic'')
      else if color characteristics = ''light'' \<or> color characteristics = ''gray'' then
        Some (createRockData ''Granite'' ''igneous'' 65 ''Formed from slow cooling of felsic magma deep within the Earth's crust'' ''plutonic'' ''phaneritic'')
      else if hardness characteristics = ''soft'' then
        Some (createRockData ''Limestone'' ''sedimentary'' 60 ''Formed from accumulation of marine organisms and chemical precipitation in warm, shallow seas'' ''chemical'' ''crystalline'')
      else None)"

text \<open>Last statement, \<^verbatim>\<open>// Final fallback - granite is most common\<close>.\<close>

definition tier4 :: RockData where
  "tier4 = createRockData ''Granite'' ''igneous'' 55 ''Common igneous rock formed from cooling magma - identification needs more specific details'' ''plutonic'' ''phaneritic''"

definition classifyRock :: "Characteristics \<Rightarrow> RockData" where
  "classifyRock characteristics =
     (let keywords = keywords_list characteristics;
          keywordString = join '' '' keywords
      in case tier1 keywordString of
           Some rock \<Rightarrow> rock
         | None \<Rightarrow>
             (case tier2 characteristics keywordString of
                Some rock \<Rightarrow> rock
              | None \<Rightarrow>
                  (case tier3 characteristics of
                     Some rock \<Rightarrow> rock
                   | None \<Rightarrow> tier4)))"

definition identifyRock :: "string option \<Rightarrow> ImageAnalysis option \<Rightarrow> RockData" where
  "identifyRock description imageAnalysis =
     (let characteristics = parseCharacteristics description imageAnalysis
      in classifyRock characteristics)"

section \<open>Enrichment\<close>

text \<open>
  The reference tables are object literals read with \<^verbatim>\<open>table[key] || fallback\<close>, and the
  results of the two lookups are read with \<^verbatim>\<open>result.field || fallback\<close>. What such an
  expression gives depends on JavaScript's truthiness, so the values it works on are kept
  apart: \<open>Undefined\<close> and \<open>Null\<close> are falsy; \<open>Object v\<close> is an array or an object (with
  the value \<open>v\<close>), truthy whatever it holds, an empty array too; \<open>Builtin\<close> is a member that
  an object literal inherits from \<^verbatim>\<open>Object.prototype\<close> (a function, or the prototype
  itself), truthy as well.
\<close>

datatype 'a js = Undefined | Null | Object 'a | Builtin

definition js_or :: "'a js \<Rightarrow> 'a js \<Rightarrow> 'a js" where
  \<comment> \<open>\<^verbatim>\<open>a || b\<close> where \<^verbatim>\<open>a\<close> is an object, \<^verbatim>\<open>undefined\<close> or \<^verbatim>\<open>null\<close>\<close>
  "js_or a b = (case a of Undefined \<Rightarrow> b | Null \<Rightarrow> b | Object v \<Rightarrow> Object v | Builtin \<Rightarrow> Builtin)"

definition string_or :: "string option \<Rightarrow> string \<Rightarrow> string" where
  \<comment> \<open>\<^verbatim>\<open>a || b\<close> where \<^verbatim>\<open>a\<close> is a string or missing: the empty string is falsy\<close>
  "string_or a b = (case a of None \<Rightarrow> b | Some v \<Rightarrow> if v = [] then b else v)"

text \<open>
  The members of \<^verbatim>\<open>Object.prototype\<close> in the language standard (with its annex B). A
  runtime may lack some of them; a read of such a name then gives \<^verbatim>\<open>undefined\<close>, as for
  any other name that is not a key of the table.
\<close>

definition Object_prototype_members :: "string list" where
  "Object_prototype_members =
     [''constructor'', ''hasOwnProperty'', ''isPrototypeOf'', ''propertyIsEnumerable'',
      ''toLocaleString'', ''toString'', ''valueOf'', ''__proto__'',
      ''__defineGetter__'', ''__defineSetter__'', ''__lookupGetter__'', ''__lookupSetter__'']"

definition get_member :: "(string \<times> 'a) list \<Rightarrow> string \<Rightarrow> 'a js" where
  \<comment> \<open>\<^verbatim>\<open>table[key]\<close> on an object literal with the listed own properties\<close>
  "get_member table key =
     (case map_of table key of
        Some v \<Rightarrow> Object v
      | None \<Rightarrow> if key \<in> set Object_prototype_members then Builtin else Undefined)"

record Classification =
  group :: string
  family :: "string option"
  series :: "string option"

definition locationMap :: "(string \<times> string list) list" where
  "locationMap = [
     (''igneous'', [''Volcanic regions'', ''Mountain ranges'', ''Oceanic islands'', ''Continental margins'']),
     (''sedimentary'', [''River valleys'', ''Ocean floors'', ''Desert basins'', ''Coastal plains'']),
     (''metamorphic'', [''Mountain cores'', ''Continental shields'', ''Collision zones'', ''Deep crustal regions''])]"

definition getDefaultLocations :: "string \<Rightarrow> string list js" where
  "getDefaultLocations rockType =
     js_or (get_member locationMap rockType) (Object [''Worldwide distribution''])"

text \<open>
  The Limestone entry of the composition table holds, after \<^verbatim>\<open>CaCO\<close>, characters outside
  Latin-1; they are kept as the bytes of the source file.
\<close>

definition compositionMap :: "(string \<times> string list) list" where
  "compositionMap = [
     (''Granite'', [''Quartz (25-35%)'', ''Feldspar (50-60%)'', ''Mica (5-15%)'', ''Hornblende'']),
     (''Basalt'', [''Plagioclase feldspar'', ''Pyroxene'', ''Olivine'', ''Magnetite'']),
     (''Limestone'', [''Calcite (CaCO'' @ [CHR 0xC3, CHR 0xA2, CHR 0xE2, CHR 0x80, CHR 0x9A, CHR 0xC6, CHR 0x92] @ '')'',
                     ''Aragonite'', ''Dolomite'', ''Fossil fragments'']),
     (''Sandstone'', [''Quartz (dominant)'', ''Feldspar'', ''Rock fragments'', ''Clay minerals'']),
     (''Shale'', [''Clay minerals'', ''Quartz'', ''Feldspar'', ''Organic matter'']),
     (''Schist'', [''Mica'', ''Quartz'', ''Feldspar'', ''Garnet'', ''Staurolite'']),
     (''Quartzite'', [''Quartz (>95%)'', ''Minor feldspar'', ''Mica traces'']),
     (''Obsidian'', [''Volcanic glass'', ''Silica (70-75%)'', ''Minimal crystals'']),
     (''Pumice'', [''Volcanic glass'', ''Silica'', ''Gas bubbles (vesicles)'']),
     (''Scoria'', [''Basaltic glass'', ''Pyroxene'', ''Plagioclase'', ''Olivine''])]"

definition getComposition :: "string \<Rightarrow> string list js" where
  "getComposition rockName =
     js_or (get_member compositionMap rockName) (Object [''Mineral composition varies''])"

definition usesMap :: "(string \<times> string list) list" where
  "usesMap = [
     (''Granite'', [''Construction material'', ''Countertops'', ''Monuments'', ''Road aggregate'']),
     (''Basalt'', [''Road construction'', ''Railroad ballast'', ''Concrete aggregate'', ''Stone tools'']),
     (''Limestone'', [''Cement production'', ''Building stone'', ''Agricultural lime'', ''Steel production'']),
     (''Sandstone'', [''Building stone'', ''Paving material'', ''Glass manufacturing'', ''Filtration'']),
     (''Shale'', [''Brick manufacturing'', ''Ceramic production'', ''Oil and gas extraction'']),
     (''Schist'', [''Roofing material'', ''Decorative stone'', ''Road construction'']),
     (''Quartzite'', [''Construction aggregate'', ''Railroad ballast'', ''Roofing granules'']),
     (''Obsidian'', [''Surgical instruments'', ''Decorative objects'', ''Archaeological tools'']),
     (''Pumice'', [''Abrasive material'', ''Concrete aggregate'', ''Horticulture'', ''Personal care'']),
     (''Scoria'', [''Landscaping'', ''Construction aggregate'', ''Drainage material''])]"

definition getUses :: "string \<Rightarrow> string list js" where
  "getUses rockName =
     js_or (get_member usesMap rockName) (Object [''Various industrial and construction applications''])"

definition classificationMap :: "(string \<times> Classification) list" where
  "classificationMap = [
     (''Granite'', \<lparr>group = ''Felsic Intrusive'', family = Some ''Granitoid'', series = Some ''Alkali Feldspar''\<rparr>),
     (''Basalt'', \<lparr>group = ''Mafic Extrusive'', family = Some ''Basaltic'', series = Some ''Tholeiitic''\<rparr>),
     (''Limestone'', \<lparr>group = ''Carbonate'', family = Some ''Calcitic'', series = None\<rparr>),
     (''Sandstone'', \<lparr>group = ''Clastic'', family = Some ''Arenaceous'', series = None\<rparr>),
     (''Shale'', \<lparr>group = ''Clastic'', family = Some ''Argillaceous'', series = None\<rparr>),
     (''Schist'', \<lparr>group = ''Foliated'', family = Some ''Regional Metamorphic'', series = None\<rparr>),
     (''Quartzite'', \<lparr>group = ''Non-foliated'', family = Some ''Contact Metamorphic'', series = None\<rparr>)]"

definition getClassification :: "string \<Rightarrow> string \<Rightarrow> Classification js" where
  "getClassification rockName rockType =
     js_or (get_member classificationMap rockName)
       (Object \<lparr>group = rockType @ '' rock'', family = None, series = None\<rparr>)"

definition funFactsMap :: "(string \<times> string list) list" where
  \<open>funFactsMap = [
     (''Granite'', [
        ''Granite makes up about 70-80% of the Earth's continental crust'',
        ''The word "granite" comes from the Latin "granum" meaning grain'',
        ''Some granite formations are over 3 billion years old'']),
     (''Basalt'', [
        ''Basalt covers about 70% of the Earth's surface, mostly on ocean floors'',
        ''The dark side of the Moon is primarily basaltic rock'',
        ''Basalt can form hexagonal columns when cooling slowly'']),
     (''Limestone'', [
        ''The Great Pyramid of Giza is built primarily from limestone blocks'',
        ''Limestone can contain fossils of ancient marine life'',
        ''Acid rain can dissolve limestone, forming caves and sinkholes''])]\<close>

definition getDefaultFunFacts :: "string \<Rightarrow> string list js" where
  "getDefaultFunFacts rockName =
     js_or (get_member funFactsMap rockName)
       (Object [rockName @ '' has unique geological properties that make it scientifically interesting.''])"

text \<open>
  \<^verbatim>\<open>fetchWikipediaData\<close> makes one request. Its outcome is an input of the model: the
  promise of \<^verbatim>\<open>fetch\<close> is rejected, or it resolves to a response with its \<^verbatim>\<open>ok\<close> flag and
  a body. The body is \<open>None\<close> when reading it as a JSON object raises; otherwise it gives
  \<^verbatim>\<open>data.extract\<close> and \<^verbatim>\<open>data.thumbnail?.source\<close>, each a string or missing. Every
  exception is caught inside the function, which then returns the object on its last line.
\<close>

record Summary =
  data_extract :: "string option"
  data_thumbnail_source :: "string option"

datatype fetch_outcome = Rejected | Resolved (ok: bool) (json: "Summary option")

record WikipediaData =
  wiki_funFacts :: "string list js"
  wiki_image :: "string js"

definition fetchWikipediaData :: "fetch_outcome \<Rightarrow> string \<Rightarrow> WikipediaData" where
  "fetchWikipediaData searchResponse rockName =
     (case searchResponse of
        Resolved True (Some data) \<Rightarrow>
          \<lparr>wiki_funFacts = Object [string_or (data_extract data)
                                     (rockName @ '' is a type of rock with unique geological properties.'')],
           wiki_image = (case data_thumbnail_source data of None \<Rightarrow> Undefined | Some url \<Rightarrow> Object url)\<rparr>
      | _ \<Rightarrow> \<lparr>wiki_funFacts = Object [], wiki_image = Null\<rparr>)"

record LocationData =
  location_list :: "string list js"

definition fetchLocationData :: "string \<Rightarrow> LocationData" where
  "fetchLocationData rockName = \<lparr>location_list = Object []\<rparr>"

record EnrichedRock = RockData +
  locations :: "string list js"
  composition :: "string list js"
  uses :: "string list js"
  classification :: "Classification js"
  funFacts :: "string list js"
  image :: "string js"

text \<open>
  The body of \<^verbatim>\<open>enhanceRockData\<close> is a \<^verbatim>\<open>try\<close> block. Neither lookup raises (the first
  catches every exception itself, the second is a constant), nor does any table read, so
  the block always returns and this is the whole function.
\<close>

definition enhanceRockData :: "fetch_outcome \<Rightarrow> RockData \<Rightarrow> EnrichedRock" where
  "enhanceRockData searchResponse basicData =
     (let wikipediaData = fetchWikipediaData searchResponse (name basicData);
          locationData = fetchLocationData (name basicData)
      in \<lparr>name = name basicData, type = type basicData, confidence = confidence basicData,
          formation = formation basicData, subtype = subtype basicData,
          textureType = textureType basicData,
          locations = js_or (location_list locationData) (getDefaultLocations (type basicData)),
          composition = getComposition (name basicData),
          uses = getUses (name basicData),
          classification = getClassification (name basicData) (type basicData),
          funFacts = js_or (wiki_funFacts wikipediaData) (getDefaultFunFacts (name basicData)),
          image = wiki_image wikipediaData\<rparr>)"

text \<open>
  The \<^verbatim>\<open>catch\<close> block of \<^verbatim>\<open>enhanceRockData\<close>, which would run if a statement of the
  \<^verbatim>\<open>try\<close> block raised: it takes the static defaults directly and sets no image.
\<close>

definition enhanceRockData_catch :: "RockData \<Rightarrow> EnrichedRock" where
  "enhanceRockData_catch basicData =
     \<lparr>name = name basicData, type = type basicData, confidence = confidence basicData,
      formation = formation basicData, subtype = subtype basicData,
      textureType = textureType basicData,
      locations = getDefaultLocations (type basicData),
      composition = getComposition (name basicData),
      uses = getUses (name basicData),
      classification = getClassification (name basicData) (type basicData),
      funFacts = getDefaultFunFacts (name basicData),
      image = Undefined\<rparr>"

section \<open>The specification's reading of the extractor and of the catalog\<close>

text \<open>
  The specification describes the extractor as five ordered rule lists, one per
  dimension, where the last rule that matches gives the label. \<open>last_match\<close> is that
  description; the five lists are the rules of the source in their order of declaration.
\<close>

definition last_match :: "(regex \<times> string) list \<Rightarrow> string \<Rightarrow> string" where
  "last_match rules text =
     (case filter (\<lambda>rule. rx_test (fst rule) text) rules of
        [] \<Rightarrow> ''unknown''
      | m # ms \<Rightarrow> snd (last (m # ms)))"

definition texture_rules :: "(regex \<times> string) list" where
  "texture_rules = [
     (Alts [Lit ''coarse'', Lit ''rough'', Lit ''bumpy'', Lit ''granular'', Lit ''grainy''], ''coarse''),
     (Alts [Lit ''fine'', Lit ''smooth'', Lit ''silky'', Lit ''powdery''], ''fine''),
     (Alts [Lit ''glassy'', Lit ''glass'', Lit ''shiny'', Lit ''reflective''], ''glassy''),
     (Alts [Lit ''porous'', Lit ''holes'', Lit ''bubbles'', Lit ''foam'', Lit ''vesicular'', Lit ''pumice''], ''vesicular''),
     (Alts [Lit ''layered'', Lit ''layers'', Lit ''banded'', Lit ''striped'', Lit ''sediment''], ''layered''),
     (Alts [Lit ''foliated'', Lit ''flaky'', Lit ''scaly'', Lit ''sheet''], ''foliated''),
     (Alts [Lit ''crystalline'', Lit ''crystal'', Lit ''sparkl''], ''crystalline'')]"

definition color_rules :: "(regex \<times> string) list" where
  "color_rules = [
     (Alts [Lit ''dark'', Lit ''black'', Lit ''charcoal'', Lit ''deep''], ''dark''),
     (Alts [Lit ''light'', Lit ''white'', Lit ''pale'', Lit ''cream'', Lit ''beige''], ''light''),
     (Alts [Lit ''red'', Lit ''pink'', Lit ''reddish'', Lit ''rust'', Lit ''brick''], ''red''),
     (Alts [Lit ''green'', Lit ''olive'', Lit ''emerald''], ''green''),
     (Alts [Lit ''gray'', Lit ''grey'', Lit ''silver''], ''gray''),
     (Alts [Lit ''brown'', Lit ''tan'', Lit ''beige'', Lit ''chocolate''], ''brown''),
     (Alts [Lit ''yellow'', Lit ''golden'', Lit ''amber''], ''yellow''),
     (Alts [Lit ''blue'', Lit ''azure''], ''blue'')]"

definition hardness_rules :: "(regex \<times> string) list" where
  "hardness_rules = [
     (Alts [Lit ''hard'',
            Seq (Lit ''difficult'') (Seq DotStar (Alts [Lit ''scratch'', Lit ''break''])),
            Lit ''tough'', Lit ''solid''], ''hard''),
     (Alts [Lit ''soft'',
            Seq (Lit ''easy'') (Seq DotStar (Alts [Lit ''scratch'', Lit ''break''])),
            Lit ''crumbl'', Lit ''chalk''], ''soft''),
     (Alts [Lit ''medium'', Lit ''moderate''], ''medium'')]"

definition luster_rules :: "(regex \<times> string) list" where
  "luster_rules = [
     (Alts [Lit ''shiny'', Lit ''metallic'', Lit ''mirror'', Lit ''reflective''], ''metallic''),
     (Alts [Lit ''dull'', Lit ''earthy'', Lit ''matte'', Lit ''chalky''], ''dull''),
     (Alts [Lit ''glassy'', Lit ''vitreous'', Lit ''glass''], ''vitreous''),
     (Alts [Lit ''pearly'', Lit ''silk''], ''pearly'')]"

definition crystalSize_rules :: "(regex \<times> string) list" where
  "crystalSize_rules = [
     (Alts [Seq (Lit ''large'') (Seq DotStar (Alts [Lit ''crystal'', Lit ''grain''])),
            Lit ''coarse''], ''large''),
     (Alts [Seq (Lit ''small'') (Seq DotStar (Alts [Lit ''crystal'', Lit ''grain''])),
            Lit ''fine''], ''small''),
     (Alts [Seq (Lit ''no'') (Seq DotStar (Lit ''crystal'')),
            Lit ''glass''], ''none'')]"

text \<open>The catalog of rock names, each with its rock type.\<close>

definition rock_catalog :: "(string \<times> string) list" where
  "rock_catalog = [
     (''Granite'', ''igneous''), (''Basalt'', ''igneous''), (''Limestone'', ''sedimentary''),
     (''Sandstone'', ''sedimentary''), (''Marble'', ''metamorphic''), (''Slate'', ''metamorphic''),
     (''Quartzite'', ''metamorphic''), (''Obsidian'', ''igneous''), (''Pumice'', ''igneous''),
     (''Scoria'', ''igneous''), (''Gabbro'', ''igneous''), (''Shale'', ''sedimentary''),
     (''Schist'', ''metamorphic'')]"

text \<open>
  The records that the return statements of \<^verbatim>\<open>classifyRock\<close> build, in the order of the
  source (the two returns of Sandstone with confidence 72 build the same record).
\<close>

definition classifier_results :: "RockData list" where
  "classifier_results = [
     createRockData ''Granite'' ''igneous'' 88 ''Formed from slow cooling of felsic magma deep within the Earth's crust'' ''plutonic'' ''phaneritic'',
     createRockData ''Basalt'' ''igneous'' 85 ''Formed from rapid cooling of mafic lava flows on the Earth's surface'' ''volcanic'' ''aphanitic'',
     createRockData ''Limestone'' ''sedimentary'' 82 ''Formed from accumulation of marine organisms and chemical precipitation in warm, shallow seas'' ''chemical'' ''crystalline'',
     createRockData ''Sandstone'' ''sedimentary'' 80 ''Formed from cementation of sand-sized mineral particles, primarily quartz'' ''clastic'' ''medium-grained'',
     createRockData ''Marble'' ''metamorphic'' 85 ''Formed from metamorphism of limestone or dolomite under heat and pressure'' ''non-foliated'' ''crystalline'',
     createRockData ''Slate'' ''metamorphic'' 83 ''Formed from low-grade metamorphism of shale or mudstone'' ''foliated'' ''fine-grained'',
     createRockData ''Quartzite'' ''metamorphic'' 81 ''Formed from metamorphism of sandstone under high pressure and temperature'' ''non-foliated'' ''granoblastic'',
     createRockData ''Obsidian'' ''igneous'' 90 ''Formed from rapid cooling of volcanic glass, preventing crystal formation'' ''volcanic'' ''glassy'',
     createRockData ''Pumice'' ''igneous'' 87 ''Formed from gas-filled volcanic eruptions that create a frothy, lightweight rock'' ''volcanic'' ''vesicular'',
     createRockData ''Basalt'' ''igneous'' 78 ''Formed from rapid cooling of mafic lava flows on the Earth's surface'' ''volcanic'' ''aphanitic'',
     createRockData ''Shale'' ''sedimentary'' 75 ''Formed from compaction of clay and silt particles in quiet water environments'' ''clastic'' ''fine-grained'',
     createRockData ''Sandstone'' ''sedimentary'' 72 ''Formed from cementation of sand-sized mineral particles, primarily quartz'' ''clastic'' ''medium-grained'',
     createRockData ''Limestone'' ''sedimentary'' 75 ''Formed from accumulation of marine organisms and chemical precipitation in warm, shallow seas'' ''chemical'' ''crystalline'',
     createRockData ''Slate'' ''metamorphic'' 70 ''Formed from low-grade metamorphism of shale or mudstone'' ''foliated'' ''fine-grained'',
     createRockData ''Schist'' ''metamorphic'' 68 ''Formed from medium-grade metamorphism of shale or other fine-grained rocks'' ''foliated'' ''schistose'',
     createRockData ''Marble'' ''metamorphic'' 76 ''Formed from metamorphism of limestone or dolomite under heat and pressure'' ''non-foliated'' ''crystalline'',
     createRockData ''Quartzite'' ''metamorphic'' 74 ''Formed from metamorphism of sandstone under high pressure and temperature'' ''non-foliated'' ''granoblastic'',
     createRockData ''Obsidian'' ''igneous'' 85 ''Formed from rapid cooling of volcanic glass, preventing crystal formation'' ''volcanic'' ''glassy'',
     createRockData ''Pumice'' ''igneous'' 80 ''Formed from gas-filled volcanic eruptions that create a frothy, lightweight rock'' ''volcanic'' ''vesicular'',
     createRockData ''Scoria'' ''igneous'' 75 ''Formed from basaltic or andesitic magma during Strombolian eruptions'' ''volcanic'' ''vesicular'',
     createRockData ''Granite'' ''igneous'' 82 ''Formed from slow cooling of felsic magma deep within the Earth's crust'' ''plutonic'' ''phaneritic'',
     createRockData ''Gabbro'' ''igneous'' 78 ''Formed from slow cooling of mafic magma deep within the Earth's crust'' ''plutonic'' ''phaneritic'',
     createRockData ''Basalt'' ''igneous'' 65 ''Formed from rapid cooling of mafic lava flows on the Earth's surface'' ''volcanic'' ''aphanitic'',
     createRockData ''Granite'' ''igneous'' 65 ''Formed from slow cooling of felsic magma deep within the Earth's crust'' ''plutonic'' ''phaneritic'',
     createRockData ''Limestone'' ''sedimentary'' 60 ''Formed from accumulation of marine organisms and chemical precipitation in warm, shallow seas'' ''chemical'' ''crystalline'',
     createRockData ''Granite'' ''igneous'' 55 ''Common igneous rock formed from cooling magma - identification needs more specific details'' ''plutonic'' ''phaneritic'']"

section \<open>Facts about the classifier's branches\<close>

lemma createRockData_fields [simp]:
  "name (createRockData n t k f s x) = n"
  "type (createRockData n t k f s x) = t"
  "confidence (createRockData n t k f s x) = k"
  "formation (createRockData n t k f s x) = f"
  "subtype (createRockData n t k f s x) = s"
  "textureType (createRockData n t k f s x) = x"
  by (simp_all add: createRockData_def)


lemma glassy_branch:
  "tier1 (join '' '' (keywords_list c)) = None \<Longrightarrow> texture c = ''glassy'' \<Longrightarrow>
   classifyRock c = createRockData ''Obsidian'' ''igneous'' 85 ''Formed from rapid cooling of volcanic glass, preventing crystal formation'' ''volcanic'' ''glassy''"
  by (simp add: classifyRock_def tier2_def)

lemma vesicular_branch:
  "tier1 (join '' '' (keywords_list c)) = None \<Longrightarrow> texture c = ''vesicular'' \<Longrightarrow>
   classifyRock c =
     (if color c = ''light''
      then createRockData ''Pumice'' ''igneous'' 80 ''Formed from gas-filled volcanic eruptions that create a frothy, lightweight rock'' ''volcanic'' ''vesicular''
      else createRockData ''Scoria'' ''igneous'' 75 ''Formed from basaltic or andesitic magma during Strombolian eruptions'' ''volcanic'' ''vesicular'')"
  by (simp add: classifyRock_def tier2_def)

lemma tier1_results:
  "tier1 ks = Some r \<Longrightarrow> r \<in> set classifier_results \<and> 80 \<le> confidence r \<and> confidence r \<le> 90"
  by (auto simp: tier1_def classifier_results_def split: if_splits)

lemma tier2_rest_results:
  "tier2_rest c ks = Some r \<Longrightarrow> r \<in> set classifier_results \<and> 65 \<le> confidence r \<and> confidence r \<le> 85"
  by (auto simp: tier2_rest_def classifier_results_def split: if_splits)

lemma tier2_results:
  "tier2 c ks = Some r \<Longrightarrow> r \<in> set classifier_results \<and> 65 \<le> confidence r \<and> confidence r \<le> 85"
  unfolding tier2_def
  by (auto simp: classifier_results_def dest: tier2_rest_results split: if_splits)

lemma tier3_results:
  "tier3 c = Some r \<Longrightarrow> r \<in> set classifier_results \<and> 55 \<le> confidence r \<and> confidence r \<le> 65"
  by (auto simp: tier3_def classifier_results_def split: if_splits)

lemma tier4_results:
  "tier4 \<in> set classifier_results \<and> confidence tier4 = 55"
  by (simp add: tier4_def classifier_results_def)

lemma classifyRock_cases:
  "(\<exists>r. tier1 (join '' '' (keywords_list c)) = Some r \<and> classifyRock c = r)
   \<or> (\<exists>r. tier2 c (join '' '' (keywords_list c)) = Some r \<and> classifyRock c = r)
   \<or> (\<exists>r. tier3 c = Some r \<and> classifyRock c = r)
   \<or> classifyRock c = tier4"
  by (auto simp: classifyRock_def Let_def split: option.splits)

lemma classifyRock_in_results: "classifyRock c \<in> set classifier_results"
  using classifyRock_cases [of c] tier1_results tier2_results tier3_results tier4_results
  by metis

lemma classifyRock_confidence: "55 \<le> confidence (classifyRock c) \<and> confidence (classifyRock c) \<le> 90"
proof -
  consider r where "tier1 (join '' '' (keywords_list c)) = Some r" "classifyRock c = r"
    | r where "tier2 c (join '' '' (keywords_list c)) = Some r" "classifyRock c = r"
    | r where "tier3 c = Some r" "classifyRock c = r"
    | "classifyRock c = tier4"
    using classifyRock_cases [of c] by blast
  then show ?thesis
  proof cases
    case 1 then show ?thesis using tier1_results [of _ r] by force
  next
    case 2 then show ?thesis using tier2_results [of c _ r] by force
  next
    case 3 then show ?thesis using tier3_results [of c r] by force
  next
    case 4 then show ?thesis using tier4_results by simp
  qed
qed

lemma results_catalog:
  "\<forall>r \<in> set classifier_results.
     name r \<in> set (map fst rock_catalog) \<and> name r \<noteq> ''unknown''
     \<and> map_of rock_catalog (name r) = Some (type r)"
  by (simp add: classifier_results_def rock_catalog_def)

lemma results_distinct_keys:
  "distinct (map (\<lambda>r. (name r, confidence r)) classifier_results)"
  by (simp add: classifier_results_def)

lemma results_branch:
  assumes "r \<in> set classifier_results" "r' \<in> set classifier_results"
    and "name r = name r'" "confidence r = confidence r'"
  shows "r = r'"
proof -
  have "inj_on (\<lambda>r. (name r, confidence r)) (set classifier_results)"
    using results_distinct_keys by (simp add: distinct_map)
  then show ?thesis using assms by (auto dest: inj_onD)
qed

section \<open>Facts about the extractor\<close>

lemma statements_Nil: "statements [] s = s"
  by (simp add: statements_def)

lemma statements_Cons: "statements (f # fs) s = statements fs (f s)"
  by (simp add: statements_def)

lemma if_then_keep: "(\<And>c. sel (f c) = sel c) \<Longrightarrow> sel (if_then b f s) = sel s"
  by (simp add: if_then_def)

lemmas dimension_keep =
  if_then_keep [of texture] if_then_keep [of color] if_then_keep [of hardness]
  if_then_keep [of luster] if_then_keep [of crystalSize]

lemma dimension_set:
  "texture (if_then b (texture_update (\<lambda>_. l)) s) = (if b then l else texture s)"
  "color (if_then b (color_update (\<lambda>_. l)) s) = (if b then l else color s)"
  "hardness (if_then b (hardness_update (\<lambda>_. l)) s) = (if b then l else hardness s)"
  "luster (if_then b (luster_update (\<lambda>_. l)) s) = (if b then l else luster s)"
  "crystalSize (if_then b (crystalSize_update (\<lambda>_. l)) s) = (if b then l else crystalSize s)"
  by (simp_all add: if_then_def)

lemma last_rule_fold:
  "foldl (\<lambda>v rule. if rx_test (fst rule) text then snd rule else v) v0 rules =
     (case filter (\<lambda>rule. rx_test (fst rule) text) rules of
        [] \<Rightarrow> v0
      | m # ms \<Rightarrow> snd (last (m # ms)))"
  by (induction rules arbitrary: v0) (auto split: list.splits)

lemma last_match_fold:
  "last_match rules text =
     foldl (\<lambda>v rule. if rx_test (fst rule) text then snd rule else v) ''unknown'' rules"
  by (simp add: last_match_def last_rule_fold)

lemma parse_description_dimensions:
  assumes "texture c = ''unknown''" "color c = ''unknown''" "hardness c = ''unknown''"
    "luster c = ''unknown''" "crystalSize c = ''unknown''"
  shows "texture (parse_description d c) = last_match texture_rules (toLowerCase d)"
    and "color (parse_description d c) = last_match color_rules (toLowerCase d)"
    and "hardness (parse_description d c) = last_match hardness_rules (toLowerCase d)"
    and "luster (parse_description d c) = last_match luster_rules (toLowerCase d)"
    and "crystalSize (parse_description d c) = last_match crystalSize_rules (toLowerCase d)"
  using assms
  by (simp_all add: parse_description_def Let_def statements_Cons statements_Nil
      dimension_keep dimension_set last_match_fold
      texture_rules_def color_rules_def hardness_rules_def luster_rules_def crystalSize_rules_def
      del: rx_test.simps match_at.simps)

lemma last_match_empty:
  "last_match texture_rules [] = ''unknown''"
  "last_match color_rules [] = ''unknown''"
  "last_match hardness_rules [] = ''unknown''"
  "last_match luster_rules [] = ''unknown''"
  "last_match crystalSize_rules [] = ''unknown''"
  by (simp_all add: last_match_def texture_rules_def color_rules_def hardness_rules_def
      luster_rules_def crystalSize_rules_def)

section \<open>Facts about regular expressions and keywords\<close>

lemma starts_with_append: "starts_with p (p @ s) = Some s"
  by (induction p) simp_all

lemma match_at_Lit_append: "match_at (Lit p) (p @ s) = [s]"
  by (simp add: starts_with_append)

lemma rx_test_here: "match_at r s \<noteq> [] \<Longrightarrow> rx_test r s"
  by (cases s) simp_all

lemma rx_test_later: "rx_test r s \<Longrightarrow> rx_test r (pre @ s)"
  by (induction pre) simp_all

lemma rx_test_Lit_infix: "rx_test (Lit p) (pre @ p @ post)"
  by (intro rx_test_later rx_test_here) (simp add: match_at_Lit_append del: match_at.simps)

lemma join_holds_keyword:
  "k \<in> set ks \<Longrightarrow> \<exists>pre post. join sep ks = pre @ k @ post"
proof (induction sep ks rule: join.induct)
  case (1 sep)
  then show ?case by simp
next
  case (2 sep x)
  then have "join sep [x] = [] @ k @ []" by simp
  then show ?case by blast
next
  case (3 sep x y ys)
  show ?case
  proof (cases "k = x")
    case True
    then have "join sep (x # y # ys) = [] @ k @ (sep @ join sep (y # ys))" by simp
    then show ?thesis by blast
  next
    case False
    with 3 obtain pre post where "join sep (y # ys) = pre @ k @ post" by auto
    then have "join sep (x # y # ys) = (x @ sep @ pre) @ k @ post" by simp
    then show ?thesis by blast
  qed
qed

lemma keyword_in_keywordString:
  "k \<in> set ks \<Longrightarrow> rx_test (Lit k) (join sep ks)"
  using join_holds_keyword [of k ks sep] rx_test_Lit_infix by force

lemma rx_test_Alts: "rx_test (Alts rs) s \<longleftrightarrow> (\<exists>r \<in> set rs. rx_test r s)"
  by (induction s) auto

lemma tier1_fires:
  assumes "k \<in> set (keywords_list c)"
    and "k \<in> set [''granite'', ''basalt'', ''limestone'', ''sandstone'', ''marble'', ''slate'',
                  ''quartzite'', ''obsidian'', ''pumice'']"
  shows "tier1 (join '' '' (keywords_list c)) = Some (classifyRock c)"
proof -
  have "rx_test (Lit k) (join '' '' (keywords_list c))"
    using assms(1) by (rule keyword_in_keywordString)
  with assms(2) have "tier1 (join '' '' (keywords_list c)) \<noteq> None"
    by (auto simp: tier1_def rx_test_Alts simp del: rx_test.simps match_at.simps)
  then show ?thesis
    by (auto simp: classifyRock_def)
qed

section \<open>Facts about enrichment\<close>

lemma fetchWikipediaData_failure:
  "wiki_funFacts (fetchWikipediaData Rejected n) = Object []"
  "wiki_funFacts (fetchWikipediaData (Resolved False body) n) = Object []"
  "wiki_funFacts (fetchWikipediaData (Resolved True None) n) = Object []"
  by (simp_all add: fetchWikipediaData_def split: bool.splits option.splits)

lemma fetchWikipediaData_success:
  "wiki_funFacts (fetchWikipediaData (Resolved True (Some data)) n) =
     Object [string_or (data_extract data) (n @ '' is a type of rock with unique geological properties.'')]"
  by (simp add: fetchWikipediaData_def)

lemma enhanceRockData_funFacts:
  "funFacts (enhanceRockData outcome b) =
     js_or (wiki_funFacts (fetchWikipediaData outcome (name b))) (getDefaultFunFacts (name b))"
  by (simp add: enhanceRockData_def Let_def)

lemma enhanceRockData_locations: "locations (enhanceRockData outcome b) = Object []"
  by (simp add: enhanceRockData_def Let_def fetchLocationData_def js_or_def)

lemma enhanceRockData_static:
  "composition (enhanceRockData outcome b) = getComposition (name b)"
  "uses (enhanceRockData outcome b) = getUses (name b)"
  "classification (enhanceRockData outcome b) = getClassification (name b) (type b)"
  by (simp_all add: enhanceRockData_def Let_def)

lemma identify_granite:
  "identifyRock (Some ''granite'') None =
     createRockData ''Granite'' ''igneous'' 88 ''Formed from slow cooling of felsic magma deep within the Earth's crust'' ''plutonic'' ''phaneritic''"
  by code_simp

lemma identify_marble:
  "identifyRock (Some ''marble'') None =
     createRockData ''Marble'' ''metamorphic'' 85 ''Formed from metamorphism of limestone or dolomite under heat and pressure'' ''non-foliated'' ''crystalline''"
  by code_simp

section \<open>The empty description\<close>

text \<open>
  C4. For the empty description and no image analysis, the extractor gives
  \<open>''unknown''\<close> in all five dimensions and an empty keyword list, none of the first three
  groups of the classifier returns, and the classifier gives the final fallback: Granite,
  igneous, confidence 55.
\<close>

theorem empty_description_final_fallback:
  "parseCharacteristics (Some []) None =
     \<lparr>texture = ''unknown'', color = ''unknown'', hardness = ''unknown'',
      luster = ''unknown'', crystalSize = ''unknown'', keywords_list = [],
      dominantColors = None\<rparr>
   \<and> tier1 (join '' '' (keywords_list (parseCharacteristics (Some []) None))) = None
   \<and> tier2 (parseCharacteristics (Some []) None)
         (join '' '' (keywords_list (parseCharacteristics (Some []) None))) = None
   \<and> tier3 (parseCharacteristics (Some []) None) = None
   \<and> classifyRock (parseCharacteristics (Some []) None) = tier4
   \<and> name tier4 = ''Granite'' \<and> type tier4 = ''igneous'' \<and> confidence tier4 = 55"
  by (simp add: parseCharacteristics_def statements_def if_then_def classifyRock_def
      tier1_def tier2_def tier2_rest_def tier3_def tier4_def createRockData_def)

theorem empty_description_final_fallback_witness:
  "confidence (identifyRock (Some []) None) = 55"
proof -
  from empty_description_final_fallback
  have "classifyRock (parseCharacteristics (Some []) None) = tier4" and "confidence tier4 = 55"
    by blast+
  then show ?thesis by (simp add: identifyRock_def)
qed

section \<open>The glassy branch\<close>

text \<open>
  C6. For the description "glassy shiny volcanic rock" the extractor gives the texture
  \<open>''glassy''\<close> and the classifier gives Obsidian with confidence 85. The glassy branch is
  the first of the characteristic rules: whenever no direct keyword rule fires and the
  texture is glassy, the result is that Obsidian, whatever the other characteristics
  (vesicular, coarse, ...) are.
\<close>

theorem glassy_description_is_obsidian:
  "texture (parseCharacteristics (Some ''glassy shiny volcanic rock'') None) = ''glassy''
   \<and> identifyRock (Some ''glassy shiny volcanic rock'') None =
       createRockData ''Obsidian'' ''igneous'' 85 ''Formed from rapid cooling of volcanic glass, preventing crystal formation'' ''volcanic'' ''glassy''
   \<and> (\<forall>c :: Characteristics. tier1 (join '' '' (keywords_list c)) = None \<and> texture c = ''glassy'' \<longrightarrow>
          classifyRock c = createRockData ''Obsidian'' ''igneous'' 85 ''Formed from rapid cooling of volcanic glass, preventing crystal formation'' ''volcanic'' ''glassy'')"
proof (intro conjI allI impI)
  show "texture (parseCharacteristics (Some ''glassy shiny volcanic rock'') None) = ''glassy''"
    by code_simp
  show "identifyRock (Some ''glassy shiny volcanic rock'') None =
       createRockData ''Obsidian'' ''igneous'' 85 ''Formed from rapid cooling of volcanic glass, preventing crystal formation'' ''volcanic'' ''glassy''"
    by code_simp
next
  fix c :: Characteristics
  assume "tier1 (join '' '' (keywords_list c)) = None \<and> texture c = ''glassy''"
  then show "classifyRock c = createRockData ''Obsidian'' ''igneous'' 85 ''Formed from rapid cooling of volcanic glass, preventing crystal formation'' ''volcanic'' ''glassy''"
    by (simp add: glassy_branch)
qed

text \<open>
  The witness is a description that is glassy and also coarse, with large crystals and a
  light colour: the coarse rule would give Granite, and the glassy branch comes first.
\<close>

theorem glassy_description_is_obsidian_witness:
  "tier1 (join '' '' (keywords_list (parseCharacteristics (Some ''shiny coarse light rock'') None))) = None
   \<and> texture (parseCharacteristics (Some ''shiny coarse light rock'') None) = ''glassy''
   \<and> crystalSize (parseCharacteristics (Some ''shiny coarse light rock'') None) = ''large''
   \<and> color (parseCharacteristics (Some ''shiny coarse light rock'') None) = ''light''
   \<and> classifyRock (parseCharacteristics (Some ''shiny coarse light rock'') None) =
       createRockData ''Obsidian'' ''igneous'' 85 ''Formed from rapid cooling of volcanic glass, preventing crystal formation'' ''volcanic'' ''glassy''"
proof -
  let ?c = "parseCharacteristics (Some ''shiny coarse light rock'') None"
  have h1: "tier1 (join '' '' (keywords_list ?c)) = None" by code_simp
  have h2: "texture ?c = ''glassy''" by code_simp
  have h3: "crystalSize ?c = ''large''" by code_simp
  have h4: "color ?c = ''light''" by code_simp
  from glassy_description_is_obsidian h1 h2
  have "classifyRock ?c = createRockData ''Obsidian'' ''igneous'' 85 ''Formed from rapid cooling of volcanic glass, preventing crystal formation'' ''volcanic'' ''glassy''"
    by blast
  with h1 h2 h3 h4 show ?thesis by blast
qed

section \<open>The vesicular branch\<close>

text \<open>
  C7. Whenever no direct keyword rule fires and the texture is vesicular, the classifier
  gives Pumice with confidence 80 for the colour light and Scoria with confidence 75 for
  any other colour. The description "porous light volcanic foam" has the texture
  vesicular and the colour light, and is classified as Pumice with confidence 80.
\<close>

theorem vesicular_pumice_or_scoria:
  "(\<forall>c :: Characteristics.
      tier1 (join '' '' (keywords_list c)) = None \<and> texture c = ''vesicular'' \<longrightarrow>
      classifyRock c =
        (if color c = ''light''
         then createRockData ''Pumice'' ''igneous'' 80 ''Formed from gas-filled volcanic eruptions that create a frothy, lightweight rock'' ''volcanic'' ''vesicular''
         else createRockData ''Scoria'' ''igneous'' 75 ''Formed from basaltic or andesitic magma during Strombolian eruptions'' ''volcanic'' ''vesicular''))
   \<and> texture (parseCharacteristics (Some ''porous light volcanic foam'') None) = ''vesicular''
   \<and> color (parseCharacteristics (Some ''porous light volcanic foam'') None) = ''light''
   \<and> identifyRock (Some ''porous light volcanic foam'') None =
       createRockData ''Pumice'' ''igneous'' 80 ''Formed from gas-filled volcanic eruptions that create a frothy, lightweight rock'' ''volcanic'' ''vesicular''"
proof (intro conjI allI impI)
  fix c :: Characteristics
  assume "tier1 (join '' '' (keywords_list c)) = None \<and> texture c = ''vesicular''"
  then show "classifyRock c =
        (if color c = ''light''
         then createRockData ''Pumice'' ''igneous'' 80 ''Formed from gas-filled volcanic eruptions that create a frothy, lightweight rock'' ''volcanic'' ''vesicular''
         else createRockData ''Scoria'' ''igneous'' 75 ''Formed from basaltic or andesitic magma during Strombolian eruptions'' ''volcanic'' ''vesicular'')"
    by (simp add: vesicular_branch)
next
  show "texture (parseCharacteristics (Some ''porous light volcanic foam'') None) = ''vesicular''"
    by code_simp
  show "color (parseCharacteristics (Some ''porous light volcanic foam'') None) = ''light''"
    by code_simp
  show "identifyRock (Some ''porous light volcanic foam'') None =
       createRockData ''Pumice'' ''igneous'' 80 ''Formed from gas-filled volcanic eruptions that create a frothy, lightweight rock'' ''volcanic'' ''vesicular''"
    by code_simp
qed

text \<open>
  The witness is a vesicular description with a dark colour, which gives Scoria.
\<close>

theorem vesicular_pumice_or_scoria_witness:
  "tier1 (join '' '' (keywords_list (parseCharacteristics (Some ''dark rock full of holes'') None))) = None
   \<and> texture (parseCharacteristics (Some ''dark rock full of holes'') None) = ''vesicular''
   \<and> color (parseCharacteristics (Some ''dark rock full of holes'') None) = ''dark''
   \<and> classifyRock (parseCharacteristics (Some ''dark rock full of holes'') None) =
       createRockData ''Scoria'' ''igneous'' 75 ''Formed from basaltic or andesitic magma during Strombolian eruptions'' ''volcanic'' ''vesicular''"
proof -
  let ?c = "parseCharacteristics (Some ''dark rock full of holes'') None"
  have h1: "tier1 (join '' '' (keywords_list ?c)) = None" by code_simp
  have h2: "texture ?c = ''vesicular''" by code_simp
  have h3: "color ?c = ''dark''" by code_simp
  from vesicular_pumice_or_scoria h1 h2
  have "classifyRock ?c =
        (if color ?c = ''light''
         then createRockData ''Pumice'' ''igneous'' 80 ''Formed from gas-filled volcanic eruptions that create a frothy, lightweight rock'' ''volcanic'' ''vesicular''
         else createRockData ''Scoria'' ''igneous'' 75 ''Formed from basaltic or andesitic magma during Strombolian eruptions'' ''volcanic'' ''vesicular'')"
    by blast
  with h3 have "classifyRock ?c = createRockData ''Scoria'' ''igneous'' 75 ''Formed from basaltic or andesitic magma during Strombolian eruptions'' ''volcanic'' ''vesicular''"
    by simp
  with h1 h2 h3 show ?thesis by blast
qed

section \<open>Confidence ranges\<close>

text \<open>
  C9. The confidence of the classifier's result is an integer between 0 and 100. A
  result of the direct keyword rules has a confidence from 80 to 90, a result of the
  characteristic rules from 65 to 85, a result of the broad fallbacks from 55 to 65, and
  the final fallback has confidence 55.
\<close>

theorem confidence_ranges:
  "0 \<le> confidence (classifyRock c) \<and> confidence (classifyRock c) \<le> 100
   \<and> (\<forall>keywordString r. tier1 keywordString = Some r \<longrightarrow>
          80 \<le> confidence r \<and> confidence r \<le> 90)
   \<and> (\<forall>c' keywordString r. tier2 c' keywordString = Some r \<longrightarrow>
          65 \<le> confidence r \<and> confidence r \<le> 85)
   \<and> (\<forall>c' r. tier3 c' = Some r \<longrightarrow> 55 \<le> confidence r \<and> confidence r \<le> 65)
   \<and> confidence tier4 = 55"
proof (intro conjI allI impI)
  show "0 \<le> confidence (classifyRock c)" and "confidence (classifyRock c) \<le> 100"
    using classifyRock_confidence [of c] by simp_all
  show "confidence tier4 = 55"
    using tier4_results by simp
qed (use tier1_results tier2_results tier3_results in blast)+

text \<open>
  The witness takes one returning branch of each of the first three groups.
\<close>

theorem confidence_ranges_witness:
  "tier1 ''black obsidian'' = Some (createRockData ''Obsidian'' ''igneous'' 90 ''Formed from rapid cooling of volcanic glass, preventing crystal formation'' ''volcanic'' ''glassy'')
   \<and> 80 \<le> confidence (createRockData ''Obsidian'' ''igneous'' 90 ''Formed from rapid cooling of volcanic glass, preventing crystal formation'' ''volcanic'' ''glassy'')
   \<and> confidence (createRockData ''Obsidian'' ''igneous'' 90 ''Formed from rapid cooling of volcanic glass, preventing crystal formation'' ''volcanic'' ''glassy'') \<le> 90
   \<and> tier2 (parseCharacteristics (Some ''sparkling green stone'') None) ''sparkling green stone'' =
       Some (createRockData ''Quartzite'' ''metamorphic'' 74 ''Formed from metamorphism of sandstone under high pressure and temperature'' ''non-foliated'' ''granoblastic'')
   \<and> 65 \<le> confidence (createRockData ''Quartzite'' ''metamorphic'' 74 ''Formed from metamorphism of sandstone under high pressure and temperature'' ''non-foliated'' ''granoblastic'')
   \<and> confidence (createRockData ''Quartzite'' ''metamorphic'' 74 ''Formed from metamorphism of sandstone under high pressure and temperature'' ''non-foliated'' ''granoblastic'') \<le> 85
   \<and> tier3 (parseCharacteristics (Some ''crumbly'') None) = Some (createRockData ''Limestone'' ''sedimentary'' 60 ''Formed from accumulation of marine organisms and chemical precipitation in warm, shallow seas'' ''chemical'' ''crystalline'')
   \<and> 55 \<le> confidence (createRockData ''Limestone'' ''sedimentary'' 60 ''Formed from accumulation of marine organisms and chemical precipitation in warm, shallow seas'' ''chemical'' ''crystalline'')
   \<and> confidence (createRockData ''Limestone'' ''sedimentary'' 60 ''Formed from accumulation of marine organisms and chemical precipitation in warm, shallow seas'' ''chemical'' ''crystalline'') \<le> 65"
proof -
  let ?c = "parseCharacteristics (Some ''sparkling green stone'') None"
  have h1: "tier1 ''black obsidian'' = Some (createRockData ''Obsidian'' ''igneous'' 90 ''Formed from rapid cooling of volcanic glass, preventing crystal formation'' ''volcanic'' ''glassy'')"
    by code_simp
  have h2: "tier2 ?c ''sparkling green stone'' = Some (createRockData ''Quartzite'' ''metamorphic'' 74 ''Formed from metamorphism of sandstone under high pressure and temperature'' ''non-foliated'' ''granoblastic'')"
    by code_simp
  have h3: "tier3 (parseCharacteristics (Some ''crumbly'') None) = Some (createRockData ''Limestone'' ''sedimentary'' 60 ''Formed from accumulation of marine organisms and chemical precipitation in warm, shallow seas'' ''chemical'' ''crystalline'')"
    by code_simp
  note r = confidence_ranges [of ?c]
  from r h1 have b1: "80 \<le> confidence (createRockData ''Obsidian'' ''igneous'' 90 ''Formed from rapid cooling of volcanic glass, preventing crystal formation'' ''volcanic'' ''glassy'') \<and> confidence (createRockData ''Obsidian'' ''igneous'' 90 ''Formed from rapid cooling of volcanic glass, preventing crystal formation'' ''volcanic'' ''glassy'') \<le> 90"
    by blast
  from r h2 have b2: "65 \<le> confidence (createRockData ''Quartzite'' ''metamorphic'' 74 ''Formed from metamorphism of sandstone under high pressure and temperature'' ''non-foliated'' ''granoblastic'') \<and> confidence (createRockData ''Quartzite'' ''metamorphic'' 74 ''Formed from metamorphism of sandstone under high pressure and temperature'' ''non-foliated'' ''granoblastic'') \<le> 85"
    by blast
  from r h3 have b3: "55 \<le> confidence (createRockData ''Limestone'' ''sedimentary'' 60 ''Formed from accumulation of marine organisms and chemical precipitation in warm, shallow seas'' ''chemical'' ''crystalline'') \<and> confidence (createRockData ''Limestone'' ''sedimentary'' 60 ''Formed from accumulation of marine organisms and chemical precipitation in warm, shallow seas'' ''chemical'' ''crystalline'') \<le> 65"
    by blast
  from h1 h2 h3 b1 b2 b3 show ?thesis by blast
qed

section \<open>The catalog of results\<close>

text \<open>
  C10. The name of the classifier's result is one of the thirteen names of the catalog,
  never "unknown", and the catalog gives its rock type: a name always comes with the same
  type. The result is one of the fixed records of the return statements, so its
  formation narrative is fixed by the branch: two results with the same name and the same
  confidence are the same record.
\<close>

theorem classifier_catalog:
  "name (classifyRock c) \<in> set (map fst rock_catalog)
   \<and> name (classifyRock c) \<noteq> ''unknown''
   \<and> map_of rock_catalog (name (classifyRock c)) = Some (type (classifyRock c))
   \<and> classifyRock c \<in> set classifier_results
   \<and> (\<forall>c'. name (classifyRock c') = name (classifyRock c)
             \<and> confidence (classifyRock c') = confidence (classifyRock c) \<longrightarrow>
           classifyRock c' = classifyRock c)"
proof -
  have m: "classifyRock c \<in> set classifier_results"
    by (rule classifyRock_in_results)
  have b: "classifyRock c' = classifyRock c"
    if "name (classifyRock c') = name (classifyRock c)
        \<and> confidence (classifyRock c') = confidence (classifyRock c)" for c'
    using that results_branch [OF classifyRock_in_results [of c'] m] by simp
  from m results_catalog b show ?thesis by blast
qed

text \<open>
  The witness: a gray and a pale rock both reach the same fallback, Granite with
  confidence 65, and so get the same record.
\<close>

theorem classifier_catalog_witness:
  "name (classifyRock (parseCharacteristics (Some ''gray'') None)) =
     name (classifyRock (parseCharacteristics (Some ''pale'') None))
   \<and> confidence (classifyRock (parseCharacteristics (Some ''gray'') None)) =
       confidence (classifyRock (parseCharacteristics (Some ''pale'') None))
   \<and> classifyRock (parseCharacteristics (Some ''gray'') None) =
       classifyRock (parseCharacteristics (Some ''pale'') None)
   \<and> map_of rock_catalog (name (classifyRock (parseCharacteristics (Some ''pale'') None))) = Some ''igneous''"
proof -
  let ?c = "parseCharacteristics (Some ''pale'') None"
  let ?c' = "parseCharacteristics (Some ''gray'') None"
  have h1: "name (classifyRock ?c') = name (classifyRock ?c)" by code_simp
  have h2: "confidence (classifyRock ?c') = confidence (classifyRock ?c)" by code_simp
  have h3: "type (classifyRock ?c) = ''igneous''" by code_simp
  from classifier_catalog [of ?c] h1 h2 have "classifyRock ?c' = classifyRock ?c"
    by blast
  moreover from classifier_catalog [of ?c] h3
  have "map_of rock_catalog (name (classifyRock ?c)) = Some ''igneous''"
    by simp
  ultimately show ?thesis using h1 h2 by blast
qed

section \<open>Last matching rule wins\<close>

text \<open>
  C5. For every description and each of the five dimensions, the extractor gives the
  label of the last rule, in the order of declaration, whose pattern matches the
  lower-cased text, and \<open>''unknown''\<close> when no rule of the dimension matches.
\<close>

theorem last_matching_rule_wins:
  "texture (parseCharacteristics (Some d) img) = last_match texture_rules (toLowerCase d)
   \<and> color (parseCharacteristics (Some d) img) = last_match color_rules (toLowerCase d)
   \<and> hardness (parseCharacteristics (Some d) img) = last_match hardness_rules (toLowerCase d)
   \<and> luster (parseCharacteristics (Some d) img) = last_match luster_rules (toLowerCase d)
   \<and> crystalSize (parseCharacteristics (Some d) img) = last_match crystalSize_rules (toLowerCase d)"
proof (cases "d = []")
  case True
  then show ?thesis
    by (cases img)
      (simp_all add: parseCharacteristics_def statements_Cons statements_Nil if_then_def
        toLowerCase_def last_match_empty)
next
  case False
  then show ?thesis
    by (cases img)
      (simp_all add: parseCharacteristics_def statements_Cons statements_Nil if_then_def
        parse_description_dimensions)
qed

text \<open>
  The witness: "rough" comes first in the text, but the rule for \<open>''fine''\<close> (smooth) is
  declared after the rule for \<open>''coarse''\<close> (rough), so the texture is \<open>''fine''\<close>.
\<close>

theorem last_matching_rule_wins_witness:
  "last_match texture_rules (toLowerCase ''Rough but SMOOTH in places'') = ''fine''
   \<and> texture (parseCharacteristics (Some ''Rough but SMOOTH in places'') None) = ''fine''
   \<and> last_match color_rules (toLowerCase ''Rough but SMOOTH in places'') = ''unknown''
   \<and> color (parseCharacteristics (Some ''Rough but SMOOTH in places'') None) = ''unknown''"
proof -
  have h1: "last_match texture_rules (toLowerCase ''Rough but SMOOTH in places'') = ''fine''"
    by code_simp
  have h2: "last_match color_rules (toLowerCase ''Rough but SMOOTH in places'') = ''unknown''"
    by code_simp
  from last_matching_rule_wins [of "''Rough but SMOOTH in places''" None] h1 h2
  show ?thesis by simp
qed

section \<open>Direct keyword rules\<close>

text \<open>
  C2 says that a description whose keyword list holds a rock's own name, for any name of
  the catalog, is classified as that rock by a direct keyword rule. This fails in two
  ways: Shale (like Scoria, Gabbro and Schist) has no direct keyword rule, so "shale" ends
  at the final fallback Granite; and the rules are tried in a fixed order, so
  "basalt granite" is Granite.
\<close>

theorem own_name_keyword_counterexample:
  "''shale'' \<in> set (keywords_list (parseCharacteristics (Some ''shale'') None))
   \<and> identifyRock (Some ''shale'') None = tier4
   \<and> name tier4 = ''Granite''
   \<and> ''basalt'' \<in> set (keywords_list (parseCharacteristics (Some ''basalt granite'') None))
   \<and> name (identifyRock (Some ''basalt granite'') None) = ''Granite''"
  by code_simp

text \<open>
  C2, as amended. When the keyword list holds one of the nine names that have a direct
  keyword rule (granite, basalt, limestone, sandstone, marble, slate, quartzite, obsidian,
  pumice), the classifier gives the result of a direct keyword rule, whatever the other
  characteristics are. It is that rock's own record, with its fixed confidence, when no
  pattern of an earlier direct keyword rule (in the order granite, basalt, limestone or
  lime, sandstone or sand, marble, slate, quartzite or quartz, obsidian, pumice) occurs in
  the keywords joined by spaces.
\<close>

theorem direct_keyword_short_circuit:
  fixes c :: Characteristics
  shows
  "(\<forall>k \<in> set [''granite'', ''basalt'', ''limestone'', ''sandstone'', ''marble'', ''slate'',
                 ''quartzite'', ''obsidian'', ''pumice''].
      k \<in> set (keywords_list c) \<longrightarrow>
      tier1 (join '' '' (keywords_list c)) = Some (classifyRock c))
   \<and> (''granite'' \<in> set (keywords_list c) \<longrightarrow>
      classifyRock c = createRockData ''Granite'' ''igneous'' 88 ''Formed from slow cooling of felsic magma deep within the Earth's crust'' ''plutonic'' ''phaneritic'')
   \<and> (''basalt'' \<in> set (keywords_list c)
      \<and> \<not> rx_test (Lit ''granite'') (join '' '' (keywords_list c)) \<longrightarrow>
      classifyRock c = createRockData ''Basalt'' ''igneous'' 85 ''Formed from rapid cooling of mafic lava flows on the Earth's surface'' ''volcanic'' ''aphanitic'')
   \<and> (''limestone'' \<in> set (keywords_list c)
      \<and> \<not> rx_test (Lit ''granite'') (join '' '' (keywords_list c))
      \<and> \<not> rx_test (Lit ''basalt'') (join '' '' (keywords_list c)) \<longrightarrow>
      classifyRock c = createRockData ''Limestone'' ''sedimentary'' 82 ''Formed from accumulation of marine organisms and chemical precipitation in warm, shallow seas'' ''chemical'' ''crystalline'')
   \<and> (''sandstone'' \<in> set (keywords_list c)
      \<and> \<not> rx_test (Lit ''granite'') (join '' '' (keywords_list c))
      \<and> \<not> rx_test (Lit ''basalt'') (join '' '' (keywords_list c))
      \<and> \<not> rx_test (Alts [Lit ''limestone'', Lit ''lime'']) (join '' '' (keywords_list c)) \<longrightarrow>
      classifyRock c = createRockData ''Sandstone'' ''sedimentary'' 80 ''Formed from cementation of sand-sized mineral particles, primarily quartz'' ''clastic'' ''medium-grained'')
   \<and> (''marble'' \<in> set (keywords_list c)
      \<and> \<not> rx_test (Lit ''granite'') (join '' '' (keywords_list c))
      \<and> \<not> rx_test (Lit ''basalt'') (join '' '' (keywords_list c))
      \<and> \<not> rx_test (Alts [Lit ''limestone'', Lit ''lime'']) (join '' '' (keywords_list c))
      \<and> \<not> rx_test (Alts [Lit ''sandstone'', Lit ''sand'']) (join '' '' (keywords_list c)) \<longrightarrow>
      classifyRock c = createRockData ''Marble'' ''metamorphic'' 85 ''Formed from metamorphism of limestone or dolomite under heat and pressure'' ''non-foliated'' ''crystalline'')
   \<and> (''slate'' \<in> set (keywords_list c)
      \<and> \<not> rx_test (Lit ''granite'') (join '' '' (keywords_list c))
      \<and> \<not> rx_test (Lit ''basalt'') (join '' '' (keywords_list c))
      \<and> \<not> rx_test (Alts [Lit ''limestone'', Lit ''lime'']) (join '' '' (keywords_list c))
      \<and> \<not> rx_test (Alts [Lit ''sandstone'', Lit ''sand'']) (join '' '' (keywords_list c))
      \<and> \<not> rx_test (Lit ''marble'') (join '' '' (keywords_list c)) \<longrightarrow>
      classifyRock c = createRockData ''Slate'' ''metamorphic'' 83 ''Formed from low-grade metamorphism of shale or mudstone'' ''foliated'' ''fine-grained'')
   \<and> (''quartzite'' \<in> set (keywords_list c)
      \<and> \<not> rx_test (Lit ''granite'') (join '' '' (keywords_list c))
      \<and> \<not> rx_test (Lit ''basalt'') (join '' '' (keywords_list c))
      \<and> \<not> rx_test (Alts [Lit ''limestone'', Lit ''lime'']) (join '' '' (keywords_list c))
      \<and> \<not> rx_test (Alts [Lit ''sandstone'', Lit ''sand'']) (join '' '' (keywords_list c))
      \<and> \<not> rx_test (Lit ''marble'') (join '' '' (keywords_list c))
      \<and> \<not> rx_test (Lit ''slate'') (join '' '' (keywords_list c)) \<longrightarrow>
      classifyRock c = createRockData ''Quartzite'' ''metamorphic'' 81 ''Formed from metamorphism of sandstone under high pressure and temperature'' ''non-foliated'' ''granoblastic'')
   \<and> (''obsidian'' \<in> set (keywords_list c)
      \<and> \<not> rx_test (Lit ''granite'') (join '' '' (keywords_list c))
      \<and> \<not> rx_test (Lit ''basalt'') (join '' '' (keywords_list c))
      \<and> \<not> rx_test (Alts [Lit ''limestone'', Lit ''lime'']) (join '' '' (keywords_list c))
      \<and> \<not> rx_test (Alts [Lit ''sandstone'', Lit ''sand'']) (join '' '' (keywords_list c))
      \<and> \<not> rx_test (Lit ''marble'') (join '' '' (keywords_list c))
      \<and> \<not> rx_test (Lit ''slate'') (join '' '' (keywords_list c))
      \<and> \<not> rx_test (Alts [Lit ''quartzite'', Lit ''quartz'']) (join '' '' (keywords_list c)) \<longrightarrow>
      classifyRock c = createRockData ''Obsidian'' ''igneous'' 90 ''Formed from rapid cooling of volcanic glass, preventing crystal formation'' ''volcanic'' ''glassy'')
   \<and> (''pumice'' \<in> set (keywords_list c)
      \<and> \<not> rx_test (Lit ''granite'') (join '' '' (keywords_list c))
      \<and> \<not> rx_test (Lit ''basalt'') (join '' '' (keywords_list c))
      \<and> \<not> rx_test (Alts [Lit ''limestone'', Lit ''lime'']) (join '' '' (keywords_list c))
      \<and> \<not> rx_test (Alts [Lit ''sandstone'', Lit ''sand'']) (join '' '' (keywords_list c))
      \<and> \<not> rx_test (Lit ''marble'') (join '' '' (keywords_list c))
      \<and> \<not> rx_test (Lit ''slate'') (join '' '' (keywords_list c))
      \<and> \<not> rx_test (Alts [Lit ''quartzite'', Lit ''quartz'']) (join '' '' (keywords_list c))
      \<and> \<not> rx_test (Lit ''obsidian'') (join '' '' (keywords_list c)) \<longrightarrow>
      classifyRock c = createRockData ''Pumice'' ''igneous'' 87 ''Formed from gas-filled volcanic eruptions that create a frothy, lightweight rock'' ''volcanic'' ''vesicular'')"
proof (rule conjI)
  show "\<forall>k \<in> set [''granite'', ''basalt'', ''limestone'', ''sandstone'', ''marble'', ''slate'',
                 ''quartzite'', ''obsidian'', ''pumice''].
      k \<in> set (keywords_list c) \<longrightarrow>
      tier1 (join '' '' (keywords_list c)) = Some (classifyRock c)"
    using tier1_fires [of _ c] by blast
qed (simp add: classifyRock_def tier1_def rx_test_Alts keyword_in_keywordString
      del: rx_test.simps match_at.simps)

text \<open>
  The witness: the texture of "shiny glassy basalt" is glassy, which alone would give
  Obsidian; the keyword basalt decides.
\<close>

theorem direct_keyword_short_circuit_witness:
  "''basalt'' \<in> set (keywords_list (parseCharacteristics (Some ''shiny glassy basalt'') None))
   \<and> \<not> rx_test (Lit ''granite'')
         (join '' '' (keywords_list (parseCharacteristics (Some ''shiny glassy basalt'') None)))
   \<and> texture (parseCharacteristics (Some ''shiny glassy basalt'') None) = ''glassy''
   \<and> classifyRock (parseCharacteristics (Some ''shiny glassy basalt'') None) =
       createRockData ''Basalt'' ''igneous'' 85 ''Formed from rapid cooling of mafic lava flows on the Earth's surface'' ''volcanic'' ''aphanitic''"
proof -
  let ?c = "parseCharacteristics (Some ''shiny glassy basalt'') None"
  have h1: "''basalt'' \<in> set (keywords_list ?c)" by code_simp
  have h2: "\<not> rx_test (Lit ''granite'') (join '' '' (keywords_list ?c))" by code_simp
  have h3: "texture ?c = ''glassy''" by code_simp
  from direct_keyword_short_circuit [of ?c] h1 h2
  have "classifyRock ?c = createRockData ''Basalt'' ''igneous'' 85 ''Formed from rapid cooling of mafic lava flows on the Earth's surface'' ''volcanic'' ''aphanitic''"
    by blast
  with h1 h2 h3 show ?thesis by blast
qed

section \<open>Rocks outside the reference tables\<close>

text \<open>
  C8 says that for a rock name outside the reference tables the enrichment returns the
  generic fallback values as composition, uses and fun facts, never an empty list. For
  Marble, which is in none of the tables, the fun facts of the result are the fetched
  summary when the request succeeds, not the generic sentence, and an empty list when it
  fails.
\<close>

theorem unlisted_rock_funFacts_counterexample:
  "name (identifyRock (Some ''marble'') None) = ''Marble''
   \<and> get_member compositionMap ''Marble'' = Undefined
   \<and> get_member usesMap ''Marble'' = Undefined
   \<and> get_member classificationMap ''Marble'' = Undefined
   \<and> get_member funFactsMap ''Marble'' = Undefined
   \<and> getDefaultFunFacts ''Marble'' =
       Object [''Marble has unique geological properties that make it scientifically interesting.'']
   \<and> funFacts (enhanceRockData
         (Resolved True (Some \<lparr>data_extract = Some ''Marble is a metamorphic rock.'',
                               data_thumbnail_source = None\<rparr>))
         (identifyRock (Some ''marble'') None)) =
       Object [''Marble is a metamorphic rock.'']
   \<and> funFacts (enhanceRockData Rejected (identifyRock (Some ''marble'') None)) = Object []"
  by (simp add: identify_marble createRockData_def enhanceRockData_funFacts
      fetchWikipediaData_failure fetchWikipediaData_success js_or_def string_or_def
      getDefaultFunFacts_def get_member_def compositionMap_def usesMap_def classificationMap_def
      funFactsMap_def Object_prototype_members_def)

text \<open>
  C8, as amended. For a rock whose name is in none of the four tables, enrichment gives
  the generic composition and the generic uses, each a list of one entry, and a
  classification whose group is the rock type followed by " rock"; the static lookup of
  fun facts gives the generic sentence with the rock name; and when the summary request
  succeeds, the fun facts of the result are a list of one non-empty string: the fetched
  summary, or a sentence with the rock name when the summary is missing or empty.
\<close>

theorem unlisted_rock_enrichment:
  assumes "get_member compositionMap (name b) = Undefined"
    and "get_member usesMap (name b) = Undefined"
    and "get_member classificationMap (name b) = Undefined"
    and "get_member funFactsMap (name b) = Undefined"
  shows "composition (enhanceRockData outcome b) = Object [''Mineral composition varies'']
    \<and> uses (enhanceRockData outcome b) = Object [''Various industrial and construction applications'']
    \<and> classification (enhanceRockData outcome b) =
        Object \<lparr>group = type b @ '' rock'', family = None, series = None\<rparr>
    \<and> getDefaultFunFacts (name b) =
        Object [name b @ '' has unique geological properties that make it scientifically interesting.'']
    \<and> funFacts (enhanceRockData (Resolved True (Some data)) b) =
        Object [string_or (data_extract data)
                  (name b @ '' is a type of rock with unique geological properties.'')]
    \<and> string_or (data_extract data)
          (name b @ '' is a type of rock with unique geological properties.'') \<noteq> []"
  using assms
  by (simp add: enhanceRockData_static enhanceRockData_funFacts fetchWikipediaData_success
      getComposition_def getUses_def getClassification_def getDefaultFunFacts_def js_or_def
      string_or_def split: option.splits)

theorem unlisted_rock_enrichment_witness:
  "composition (enhanceRockData Rejected (identifyRock (Some ''marble'') None)) =
     Object [''Mineral composition varies'']
   \<and> uses (enhanceRockData Rejected (identifyRock (Some ''marble'') None)) =
       Object [''Various industrial and construction applications'']
   \<and> classification (enhanceRockData Rejected (identifyRock (Some ''marble'') None)) =
       Object \<lparr>group = ''metamorphic rock'', family = None, series = None\<rparr>
   \<and> getDefaultFunFacts ''Marble'' =
       Object [''Marble has unique geological properties that make it scientifically interesting.'']
   \<and> funFacts (enhanceRockData (Resolved True (Some \<lparr>data_extract = None, data_thumbnail_source = None\<rparr>))
         (identifyRock (Some ''marble'') None)) =
       Object [''Marble is a type of rock with unique geological properties.'']"
proof -
  let ?b = "identifyRock (Some ''marble'') None"
  have n: "name ?b = ''Marble''" and t: "type ?b = ''metamorphic''"
    by (simp_all add: identify_marble createRockData_def)
  have a: "get_member compositionMap (name ?b) = Undefined"
    "get_member usesMap (name ?b) = Undefined"
    "get_member classificationMap (name ?b) = Undefined"
    "get_member funFactsMap (name ?b) = Undefined"
    unfolding n
    by (simp_all add: get_member_def compositionMap_def usesMap_def classificationMap_def
        funFactsMap_def Object_prototype_members_def)
  from unlisted_rock_enrichment [OF a, of Rejected "\<lparr>data_extract = None, data_thumbnail_source = None\<rparr>"]
  show ?thesis by (simp add: n t string_or_def)
qed

section \<open>Fun facts after a failed summary request\<close>

text \<open>
  C1 says that after a failed summary request the fun facts are those of the static
  table. In \<^verbatim>\<open>enhanceRockData\<close> the failed request gives an empty array, which is truthy,
  so \<^verbatim>\<open>wikipediaData.funFacts || getDefaultFunFacts(...)\<close> keeps the empty array. Evaluated
  for Granite: the result has no fun facts, for a rejected request and for a response that
  is not ok, while the static table has three, which the \<^verbatim>\<open>catch\<close> block would use.
\<close>

theorem failed_summary_fetch_funFacts:
  \<open>funFacts (enhanceRockData Rejected (identifyRock (Some ''granite'') None)) = Object []
   \<and> funFacts (enhanceRockData (Resolved False None) (identifyRock (Some ''granite'') None)) = Object []
   \<and> getDefaultFunFacts (name (identifyRock (Some ''granite'') None)) =
       Object [''Granite makes up about 70-80% of the Earth's continental crust'',
               ''The word "granite" comes from the Latin "granum" meaning grain'',
               ''Some granite formations are over 3 billion years old'']
   \<and> funFacts (enhanceRockData_catch (identifyRock (Some ''granite'') None)) =
       getDefaultFunFacts (name (identifyRock (Some ''granite'') None))\<close>
  by (simp add: enhanceRockData_funFacts fetchWikipediaData_failure js_or_def identify_granite
      createRockData_def getDefaultFunFacts_def get_member_def funFactsMap_def
      enhanceRockData_catch_def)

section \<open>Locations\<close>

text \<open>
  C3 says that with no locations from the location lookup the result has the default
  locations of the rock type. \<^verbatim>\<open>fetchLocationData\<close> always gives an empty array, which is
  truthy, so \<^verbatim>\<open>locationData.locations || getDefaultLocations(...)\<close> keeps it: the locations
  of the result are empty for every input. Evaluated for Granite, whose type has four
  default locations, which the \<^verbatim>\<open>catch\<close> block would use.
\<close>

theorem location_lookup_locations:
  "locations (enhanceRockData outcome b) = Object []
   \<and> locations (enhanceRockData Rejected (identifyRock (Some ''granite'') None)) = Object []
   \<and> getDefaultLocations (type (identifyRock (Some ''granite'') None)) =
       Object [''Volcanic regions'', ''Mountain ranges'', ''Oceanic islands'', ''Continental margins'']
   \<and> locations (enhanceRockData_catch (identifyRock (Some ''granite'') None)) =
       getDefaultLocations (type (identifyRock (Some ''granite'') None))"
  by (simp add: enhanceRockData_locations identify_granite createRockData_def
      getDefaultLocations_def get_member_def locationMap_def js_or_def enhanceRockData_catch_def)

end
